theory Spec2Isabelle
  imports Complex_Main
begin

section \<open>Geometry primitives\<close>

text \<open>
  Pixel geometry. The TypeScript sources compute on JavaScript numbers; every coordinate
  that reaches these functions is a whole number of pixels (they come from and go to
  integer-valued rectangles of the window system), so coordinates are modelled as
  \<^typ>\<open>int\<close>.
\<close>

text \<open>
  Modelled from the spec: the class \<open>Rect\<close> of \<open>util/rect\<close> is not among the
  sources; the spec gives it as the immutable value \<open>{x, y, width, height}\<close> with a
  containment test \<open>includes\<close>. \<open>maxX\<close> and \<open>maxY\<close> are the trailing edges
  \<open>x + width\<close> and \<open>y + height\<close>.
\<close>

record rect =
  xpos :: int
  ypos :: int
  width :: int
  height :: int

definition Rect :: "int \<Rightarrow> int \<Rightarrow> int \<Rightarrow> int \<Rightarrow> rect" where
  "Rect a b w h = \<lparr>xpos = a, ypos = b, width = w, height = h\<rparr>"

definition maxX :: "rect \<Rightarrow> int" where
  "maxX r = xpos r + width r"

definition maxY :: "rect \<Rightarrow> int" where
  "maxY r = ypos r + height r"

definition rect_includes :: "rect \<Rightarrow> rect \<Rightarrow> bool" where
  "rect_includes a other \<longleftrightarrow>
     xpos a \<le> xpos other \<and> ypos a \<le> ypos other \<and>
     maxX other \<le> maxX a \<and> maxY other \<le> maxY a"

text \<open>
  Modelled from the spec: \<open>RectDelta\<close> of \<open>util/rect\<close> is not among the sources; the
  spec gives it as four independent edge offsets.
\<close>

record rect_delta =
  east :: int
  west :: int
  south :: int
  north :: int

section \<open>Windows of the engine\<close>

text \<open>
  Modelled from the spec: \<open>engine/window\<close> is not among the sources. The layout parts
  read and write two fields of an \<open>EngineWindow\<close>, its state and its desired geometry.
\<close>

datatype WindowState = Unmanaged | Undecided | Tiled | Floating | Maximized | Minimized

record EngineWindow =
  win_id :: string
  state :: WindowState
  geometry :: rect

section \<open>The stair layout part (\<open>engine/layout/stair_part.ts\<close>)\<close>

record StairLayoutPart =
  space :: int

definition new_StairLayoutPart :: StairLayoutPart where
  "new_StairLayoutPart = \<lparr>space = 24\<rparr>"

text \<open>The rectangle the loop body builds for index \<open>i\<close> of \<open>len\<close> tiles.\<close>

definition stair_rect :: "int \<Rightarrow> rect \<Rightarrow> nat \<Rightarrow> nat \<Rightarrow> rect" where
  "stair_rect sp area len i =
     (let dx = sp * (int len - int i - 1);
          dy = sp * int i
      in Rect (xpos area + dx) (ypos area + dy) (width area - dx) (height area - dy))"

text \<open>
  The \<open>for\<close> loop of \<open>apply\<close>: at index \<open>i\<close> it stores the rectangle in
  \<open>tiles[i].geometry\<close> and pushes it on \<open>res\<close>.
\<close>

function stair_loop ::
  "int \<Rightarrow> rect \<Rightarrow> nat \<Rightarrow> EngineWindow list \<Rightarrow> rect list \<Rightarrow> EngineWindow list \<times> rect list"
where
  "stair_loop sp area i tiles res =
     (if i < length tiles
      then stair_loop sp area (Suc i)
             (tiles[i := (tiles ! i)\<lparr>geometry := stair_rect sp area (length tiles) i\<rparr>])
             (res @ [stair_rect sp area (length tiles) i])
      else (tiles, res))"
  by pat_completeness auto
termination
  by (relation "measure (\<lambda>(sp, area, i, tiles, res). length tiles - i)") auto

text \<open>
  \<open>apply\<close> first marks every tileable as tiled, then runs the loop. It returns the
  rectangles; the windows it mutated are returned beside them.
\<close>

definition stair_apply ::
  "StairLayoutPart \<Rightarrow> rect \<Rightarrow> EngineWindow list \<Rightarrow> rect list \<times> EngineWindow list"
where
  "stair_apply part area tileables =
     (let tiles = map (\<lambda>t. t\<lparr>state := Tiled\<rparr>) tileables;
          (tiles', res) = stair_loop (space part) area 0 tiles []
      in (res, tiles'))"

text \<open>\<open>adjust\<close> does nothing and hands the delta back.\<close>

definition stair_adjust ::
  "StairLayoutPart \<Rightarrow> rect \<Rightarrow> EngineWindow list \<Rightarrow> EngineWindow \<Rightarrow> rect_delta
     \<Rightarrow> rect_delta \<times> StairLayoutPart \<times> EngineWindow list"
where
  "stair_adjust part area tiles basis delta = (delta, part, tiles)"


section \<open>JavaScript values the sources rely on\<close>

text \<open>
  Reading an array at an index outside it yields \<open>undefined\<close>, here \<open>None\<close>.
\<close>

definition js_nth :: "'a list \<Rightarrow> int \<Rightarrow> 'a option" where
  "js_nth xs i = (if 0 \<le> i \<and> i < int (length xs) then Some (xs ! nat i) else None)"

text \<open>\<open>Array.prototype.indexOf\<close>: the first position of the element, \<open>-1\<close> when absent.\<close>

fun indexOf_from :: "int \<Rightarrow> 'a list \<Rightarrow> 'a \<Rightarrow> int" where
  "indexOf_from i [] v = -1"
| "indexOf_from i (a # as) v = (if a = v then i else indexOf_from (i + 1) as v)"

definition indexOf :: "'a list \<Rightarrow> 'a \<Rightarrow> int" where
  "indexOf xs v = indexOf_from 0 xs v"

text \<open>
  A property key is a string; \<open>undefined\<close> used as a key is the string
  \<open>"undefined"\<close>.
\<close>

definition key_of :: "string option \<Rightarrow> string" where
  "key_of ID = (case ID of None \<Rightarrow> ''undefined'' | Some s \<Rightarrow> s)"

text \<open>The decimal rendering of a number inside a template string.\<close>

fun string_of_nat :: "nat \<Rightarrow> string" where
  "string_of_nat n =
     (if n < 10 then [''0123456789'' ! n]
      else string_of_nat (n div 10) @ [''0123456789'' ! (n mod 10)])"

definition string_of_int :: "int \<Rightarrow> string" where
  "string_of_int i = (if i < 0 then CHR ''-'' # string_of_nat (nat (- i)) else string_of_nat (nat i))"

definition string_of_screen :: "int option \<Rightarrow> string" where
  "string_of_screen s = (case s of None \<Rightarrow> ''null'' | Some i \<Rightarrow> string_of_int i)"

text \<open>
  Reading a member of \<open>undefined\<close>, or calling what is not a function, raises a
  \<open>TypeError\<close>. The classes below use the members \<open>this.log\<close> and \<open>this.proxy\<close>,
  which their constructors neither declare nor assign; an object carries them only when
  they have been attached to it from outside. Each such object therefore records whether
  it carries the member, and every use of the member is a point where the code may throw.
\<close>

datatype js_error = TypeError

section \<open>Surfaces and their groups (\<open>driver/surface.ts\<close>)\<close>

text \<open>
  A group is a JavaScript number. Two things about numbers matter to the getter: which
  of them are falsy (\<open>0\<close> and \<open>NaN\<close>), and that arithmetic on \<open>undefined\<close>, which
  an array read outside its bounds returns, gives \<open>NaN\<close>.
\<close>

datatype jsnum = Num int | NaN

fun truthy :: "jsnum \<Rightarrow> bool" where
  "truthy (Num n) = (n \<noteq> 0)"
| "truthy NaN = False"

text \<open>
  Modelled from the spec: the proxy (\<open>core/ts-proxy.hpp\<close>) declares
  \<open>int getSurfaceGroup(int desktop, int screen)\<close> and
  \<open>void setSurfaceGroup(int desktop, int screen, int groupID)\<close>; their bodies are not
  among the sources, and the spec has them keep "an integer group value keyed by
  \<open>(desktop, screen)\<close>". A value that was never stored reads as \<open>0\<close>, the only
  \<open>int\<close> the getter's test \<open>!g\<close> takes for absent. A JavaScript number passed for an
  \<open>int\<close> parameter is converted as ECMAScript's \<open>ToInt32\<close> does: \<open>NaN\<close> and
  \<open>null\<close> become \<open>0\<close>. Desktop, screen and group numbers are small, so no 32-bit
  wrap-around is written out.
\<close>

type_synonym surface_groups = "int \<times> int \<Rightarrow> int"

definition to_int :: "jsnum \<Rightarrow> int" where
  "to_int v = (case v of Num n \<Rightarrow> n | NaN \<Rightarrow> 0)"

definition screen_to_int :: "int option \<Rightarrow> int" where
  "screen_to_int s = (case s of Some i \<Rightarrow> i | None \<Rightarrow> 0)"

definition getSurfaceGroup :: "surface_groups \<Rightarrow> int \<Rightarrow> int option \<Rightarrow> int" where
  "getSurfaceGroup st d s = st (d, screen_to_int s)"

definition setSurfaceGroup :: "surface_groups \<Rightarrow> int \<Rightarrow> int option \<Rightarrow> jsnum \<Rightarrow> surface_groups" where
  "setSurfaceGroup st d s g = st((d, screen_to_int s) := to_int g)"

text \<open>
  The surface object. Its screen is whatever the caller passed for it, which for a
  window's surface can be \<open>null\<close> (\<open>None\<close>). The last two fields tell whether the
  object carries the members \<open>proxy\<close> and \<open>log\<close>; the constructor gives it neither.
\<close>

record DriverSurfaceImpl =
  surface_id :: string
  ignore :: bool
  workingArea :: rect
  group_cache :: jsnum
  screen :: "int option"
  activity :: string
  desktop :: int
  surface_has_proxy :: bool
  surface_has_log :: bool

text \<open>
  What the constructor of a surface reads: the configuration, the names of the
  activities and the placement area of a screen on a desktop.
\<close>

record surface_env =
  ignoreActivity :: "string list"
  ignoreScreen :: "int list"
  layoutPerActivity :: bool
  layoutPerDesktop :: bool
  activityName :: "string \<Rightarrow> string"
  clientArea :: "int option \<Rightarrow> int \<Rightarrow> rect"

definition generateId :: "surface_env \<Rightarrow> int option \<Rightarrow> string \<Rightarrow> int \<Rightarrow> string" where
  "generateId env scr act desk =
     (let path = string_of_screen scr;
          path = (if layoutPerActivity env then path @ ''@'' @ act else path);
          path = (if layoutPerDesktop env then path @ [CHR 0x22] @ ''#'' @ string_of_int desk else path)
      in path)"

definition new_DriverSurfaceImpl ::
  "surface_env \<Rightarrow> int option \<Rightarrow> string \<Rightarrow> int \<Rightarrow> DriverSurfaceImpl"
where
  "new_DriverSurfaceImpl env scr act desk =
     \<lparr>surface_id = generateId env scr act desk,
      ignore = (indexOf (ignoreActivity env) (activityName env act) \<ge> 0 \<or>
                indexOf (map Some (ignoreScreen env)) scr \<ge> 0),
      workingArea = clientArea env scr desk,
      group_cache = Num 0,
      screen = scr,
      activity = act,
      desktop = desk,
      surface_has_proxy = False,
      surface_has_log = False\<rparr>"

definition customScreenOrder :: "int list" where
  "customScreenOrder = [4, 1, 3, 2, 5, 6, 7, 8, 9]"

text \<open>\<open>customScreenOrder[this.screen]\<close>, \<open>undefined\<close> outside the table.\<close>

definition order_of_screen :: "int option \<Rightarrow> int option" where
  "order_of_screen s = (case s of None \<Rightarrow> None | Some i \<Rightarrow> js_nth customScreenOrder i)"

text \<open>
  The setter of \<open>group\<close>: log, persist, then cache. It throws before changing anything
  when the surface carries no \<open>log\<close> or no \<open>proxy\<close>.
\<close>

definition group_set ::
  "jsnum \<Rightarrow> DriverSurfaceImpl \<times> surface_groups
     \<Rightarrow> js_error + DriverSurfaceImpl \<times> surface_groups"
where
  "group_set groupID = (\<lambda>(srf, st).
     (if \<not> surface_has_log srf then Inl TypeError
      else if \<not> surface_has_proxy srf then Inl TypeError
      else Inr (srf\<lparr>group_cache := groupID\<rparr>,
                setSurfaceGroup st (desktop srf) (screen srf) groupID)))"

text \<open>
  The group that the getter derives when nothing is cached and nothing is persisted:
  \<open>(this.desktop - 1) * 5 + customScreenOrder[this.screen]\<close>.
\<close>

definition derive_group :: "DriverSurfaceImpl \<Rightarrow> jsnum" where
  "derive_group srf =
     (case order_of_screen (screen srf) of
        None \<Rightarrow> NaN
      | Some ord \<Rightarrow> Num ((desktop srf - 1) * 5 + ord))"

text \<open>
  The getter of \<open>group\<close>. It returns the group and leaves cache and proxy updated, or
  throws: at \<open>this.proxy.getSurfaceGroup\<close> when the surface carries no \<open>proxy\<close>, at
  \<open>this.log.log\<close> when it has to derive the group and carries no \<open>log\<close>. Nothing
  has been changed when it throws.
\<close>

definition group_get ::
  "DriverSurfaceImpl \<times> surface_groups
     \<Rightarrow> js_error + jsnum \<times> DriverSurfaceImpl \<times> surface_groups"
where
  "group_get = (\<lambda>(srf, st).
     (if truthy (group_cache srf) then Inr (group_cache srf, srf, st)
      else if \<not> surface_has_proxy srf then Inl TypeError
      else
        (let g = getSurfaceGroup st (desktop srf) (screen srf)
         in if g = 0
            then
              (let g' = derive_group srf
               in if \<not> surface_has_log srf then Inl TypeError
                  else
                    (case group_set g' (srf, st) of
                       Inl e \<Rightarrow> Inl e
                     | Inr (srf1, st1) \<Rightarrow> Inr (g', srf1\<lparr>group_cache := g'\<rparr>, st1)))
            else Inr (Num g, srf\<lparr>group_cache := Num g\<rparr>, st))))"

section \<open>The layout registry (\<open>engine/layout_store.ts\<close>)\<close>

text \<open>
  Modelled from the spec: \<open>wrapIndex\<close> of \<open>util/func\<close> is not among the sources; the
  spec has \<open>cycleLayout\<close> advance through the configured list "with wraparound".
\<close>

definition wrapIndex :: "int \<Rightarrow> int \<Rightarrow> int" where
  "wrapIndex index len =
     (if index < 0 then index + len
      else if index \<ge> len then index - len
      else index)"

text \<open>
  Modelled from the spec: the layout classes other than the tabbed-master layout are not
  among the sources. A layout instance is given by its class and the arguments of its
  constructor that differ between instances (the \<open>uid\<close> of the spiral and tile
  layouts); the static \<open>id\<close> of each class is taken to be the name of the class, as it
  is for \<open>TabbedMasterLayout.id\<close> and \<open>StairLayoutPart.id\<close>.
\<close>

datatype WindowsLayout =
    MonocleLayout
  | QuarterLayout
  | SpiralLayout string
  | SpreadLayout
  | StairLayout
  | ThreeColumnLayout
  | TileLayout string
  | FloatingLayout

definition MonocleLayout_id :: string where "MonocleLayout_id = ''MonocleLayout''"
definition QuarterLayout_id :: string where "QuarterLayout_id = ''QuarterLayout''"
definition SpiralLayout_id :: string where "SpiralLayout_id = ''SpiralLayout''"
definition SpreadLayout_id :: string where "SpreadLayout_id = ''SpreadLayout''"
definition StairLayout_id :: string where "StairLayout_id = ''StairLayout''"
definition ThreeColumnLayout_id :: string where "ThreeColumnLayout_id = ''ThreeColumnLayout''"
definition TileLayout_id :: string where "TileLayout_id = ''TileLayout''"

text \<open>The class ids that \<open>createLayoutFromId\<close> recognises.\<close>

definition known_layout_ids :: "string list" where
  "known_layout_ids =
     [MonocleLayout_id, QuarterLayout_id, SpiralLayout_id, SpreadLayout_id, StairLayout_id,
      ThreeColumnLayout_id, TileLayout_id]"

text \<open>
  Layout instances are objects with an identity: two calls of \<open>new FloatingLayout()\<close>
  give two objects. The objects live in a store, a list indexed by reference; \<open>new\<close>
  appends.
\<close>

type_synonym ref = nat
type_synonym objects = "WindowsLayout list"

definition new_object :: "WindowsLayout \<Rightarrow> objects \<Rightarrow> ref \<times> objects" where
  "new_object obj h = (length h, h @ [obj])"

text \<open>
  Modelled from the spec: \<open>engine/layout/floating_layout.ts\<close> is not among the sources.
  \<open>FloatingLayout.instance\<close>, "the floating layout singleton", is the object that
  exists before any registry entry does, at reference 0.
\<close>

definition FloatingLayout_instance :: ref where
  "FloatingLayout_instance = 0"

definition initial_objects :: objects where
  "initial_objects = [FloatingLayout]"

text \<open>
  An entry caches its layouts in a plain object, \<open>this.layouts = {}\<close>, read as
  \<open>this.layouts[ID]\<close>. Such a read finds the object's own properties, which are the
  layouts the entry has stored, and otherwise the properties every object inherits from
  \<open>Object.prototype\<close>, whose names ECMAScript fixes. What a read yields is thus a
  layout, an inherited value (each of them truthy), or \<open>undefined\<close>.
\<close>

definition object_prototype_names :: "string list" where
  "object_prototype_names =
     [''constructor'', ''hasOwnProperty'', ''isPrototypeOf'', ''propertyIsEnumerable'',
      ''toLocaleString'', ''toString'', ''valueOf'', ''__proto__'', ''__defineGetter__'',
      ''__defineSetter__'', ''__lookupGetter__'', ''__lookupSetter__'']"

datatype js_value = Layout ref | Inherited string

record LayoutStoreEntry =
  currentIndex :: "int option"
  currentID :: "string option"
  layouts :: "string \<rightharpoonup> ref"
  previousID :: "string option"
  entry_uid :: string

text \<open>
  What an entry reads from its surroundings: the configured \<open>layoutOrder\<close>, and the
  \<open>classID\<close> field of the state the proxy has persisted under a uid (\<open>None\<close> when
  the persisted state has no such field).
\<close>

record store_env =
  layoutOrder :: "string list"
  persisted_classID :: "string \<Rightarrow> string option"

definition createLayoutFromId :: "string \<Rightarrow> string option \<Rightarrow> WindowsLayout" where
  "createLayoutFromId uid ID =
     (if ID = Some MonocleLayout_id then MonocleLayout
      else if ID = Some QuarterLayout_id then QuarterLayout
      else if ID = Some SpiralLayout_id then SpiralLayout uid
      else if ID = Some SpreadLayout_id then SpreadLayout
      else if ID = Some StairLayout_id then StairLayout
      else if ID = Some ThreeColumnLayout_id then ThreeColumnLayout
      else if ID = Some TileLayout_id then TileLayout uid
      else FloatingLayout)"

definition loadLayout ::
  "string option \<Rightarrow> objects \<times> LayoutStoreEntry \<Rightarrow> js_value \<times> objects \<times> LayoutStoreEntry"
where
  "loadLayout ID = (\<lambda>(h, e).
     (case layouts e (key_of ID) of
        Some r \<Rightarrow> (Layout r, h, e)
      | None \<Rightarrow>
          if key_of ID \<in> set object_prototype_names
          then (Inherited (key_of ID), h, e)
          else
            (let (r, h') = new_object (createLayoutFromId (entry_uid e) ID) h
             in (Layout r, h', e\<lparr>layouts := (layouts e)(key_of ID \<mapsto> r)\<rparr>))))"

text \<open>
  The constructor. A persisted class id counts when it is truthy, that is, present and
  not the empty string.
\<close>

definition new_LayoutStoreEntry :: "store_env \<Rightarrow> string \<Rightarrow> objects \<Rightarrow> objects \<times> LayoutStoreEntry"
where
  "new_LayoutStoreEntry env uid h =
     (let cur = (case persisted_classID env uid of
                   Some c \<Rightarrow> if c \<noteq> [] then Some c else js_nth (layoutOrder env) 0
                 | None \<Rightarrow> js_nth (layoutOrder env) 0);
          e = \<lparr>currentIndex = Some 0, currentID = cur, layouts = Map.empty,
               previousID = cur, entry_uid = uid\<rparr>;
          (r, h', e') = loadLayout cur (h, e)
      in (h', e'))"

definition currentLayout :: "objects \<times> LayoutStoreEntry \<Rightarrow> js_value \<times> objects \<times> LayoutStoreEntry" where
  "currentLayout = (\<lambda>(h, e). loadLayout (currentID e) (h, e))"

definition cycleLayout ::
  "store_env \<Rightarrow> int \<Rightarrow> objects \<times> LayoutStoreEntry \<Rightarrow> js_value \<times> objects \<times> LayoutStoreEntry"
where
  "cycleLayout env step = (\<lambda>(h, e).
     (let e1 = e\<lparr>previousID := currentID e\<rparr>;
          idx = (case currentIndex e1 of
                   Some i \<Rightarrow> wrapIndex (i + step) (int (length (layoutOrder env)))
                 | None \<Rightarrow> 0);
          e2 = e1\<lparr>currentIndex := Some idx\<rparr>;
          e3 = e2\<lparr>currentID := js_nth (layoutOrder env) idx\<rparr>
      in loadLayout (currentID e3) (h, e3)))"

definition updateCurrentIndex :: "store_env \<Rightarrow> LayoutStoreEntry \<Rightarrow> LayoutStoreEntry" where
  "updateCurrentIndex env e =
     (let idx = (case currentID e of
                   None \<Rightarrow> -1
                 | Some c \<Rightarrow> indexOf (layoutOrder env) c)
      in e\<lparr>currentIndex := (if idx = -1 then None else Some idx)\<rparr>)"

definition toggleLayout ::
  "store_env \<Rightarrow> string \<Rightarrow> objects \<times> LayoutStoreEntry \<Rightarrow> js_value \<times> objects \<times> LayoutStoreEntry"
where
  "toggleLayout env targetID = (\<lambda>(h, e).
     (let (targetLayout, h1, e1) = loadLayout (Some targetID) (h, e);
          e2 = (if currentID e1 = Some targetID
                then e1\<lparr>currentID := previousID e1, previousID := Some targetID\<rparr>
                else e1\<lparr>previousID := currentID e1, currentID := Some targetID\<rparr>)
      in (targetLayout, h1, updateCurrentIndex env e2)))"

text \<open>
  The registry proper. Of a surface it reads the \<open>ignore\<close> flag and the screen, whose
  rendering in a template string keys the entries.
\<close>

record LayoutStore =
  objects_of :: objects
  store :: "string \<rightharpoonup> LayoutStoreEntry"

definition new_LayoutStore :: LayoutStore where
  "new_LayoutStore = \<lparr>objects_of = initial_objects, store = Map.empty\<rparr>"

definition getEntry :: "store_env \<Rightarrow> string \<Rightarrow> LayoutStore \<Rightarrow> LayoutStoreEntry \<times> LayoutStore" where
  "getEntry env key ls =
     (case store ls key of
        Some e \<Rightarrow> (e, ls)
      | None \<Rightarrow>
          (let (h', e) = new_LayoutStoreEntry env key (objects_of ls)
           in (e, ls\<lparr>objects_of := h', store := (store ls)(key \<mapsto> e)\<rparr>)))"

definition getCurrentLayout ::
  "store_env \<Rightarrow> DriverSurfaceImpl \<Rightarrow> LayoutStore \<Rightarrow> js_value \<times> LayoutStore"
where
  "getCurrentLayout env srf ls =
     (if ignore srf then (Layout FloatingLayout_instance, ls)
      else
        (let key = string_of_screen (screen srf);
             (e, ls1) = getEntry env key ls;
             (r, h', e') = currentLayout (objects_of ls1, e)
         in (r, ls1\<lparr>objects_of := h', store := (store ls1)(key \<mapsto> e')\<rparr>)))"

definition store_cycleLayout ::
  "store_env \<Rightarrow> DriverSurfaceImpl \<Rightarrow> int \<Rightarrow> LayoutStore \<Rightarrow> js_value option \<times> LayoutStore"
where
  "store_cycleLayout env srf step ls =
     (if ignore srf then (None, ls)
      else
        (let key = string_of_screen (screen srf);
             (e, ls1) = getEntry env key ls;
             (r, h', e') = cycleLayout env step (objects_of ls1, e)
         in (Some r, ls1\<lparr>objects_of := h', store := (store ls1)(key \<mapsto> e')\<rparr>)))"

definition store_toggleLayout ::
  "store_env \<Rightarrow> DriverSurfaceImpl \<Rightarrow> string \<Rightarrow> LayoutStore \<Rightarrow> js_value option \<times> LayoutStore"
where
  "store_toggleLayout env srf layoutClassID ls =
     (if ignore srf then (None, ls)
      else
        (let key = string_of_screen (screen srf);
             (e, ls1) = getEntry env key ls;
             (r, h', e') = toggleLayout env layoutClassID (objects_of ls1, e)
         in (Some r, ls1\<lparr>objects_of := h', store := (store ls1)(key \<mapsto> e')\<rparr>)))"

text \<open>
  The states of the registry that its operations produce: the singleton is at its
  reference, and every layout an entry has cached is an object other than the singleton,
  of the class that \<open>createLayoutFromId\<close> gives for the key it is cached under; no key
  is the name of an inherited property, as a read under such a name never comes back
  empty.
\<close>

definition wf_entry :: "objects \<Rightarrow> LayoutStoreEntry \<Rightarrow> bool" where
  "wf_entry h e \<longleftrightarrow>
     (\<forall>k r. layouts e k = Some r \<longrightarrow>
        k \<notin> set object_prototype_names \<and>
        r \<noteq> FloatingLayout_instance \<and> r < length h \<and>
        h ! r = createLayoutFromId (entry_uid e) (Some k))"

definition wf_store :: "LayoutStore \<Rightarrow> bool" where
  "wf_store ls \<longleftrightarrow>
     FloatingLayout_instance < length (objects_of ls) \<and>
     objects_of ls ! FloatingLayout_instance = FloatingLayout \<and>
     (\<forall>key e. store ls key = Some e \<longrightarrow> wf_entry (objects_of ls) e)"

section \<open>The re-entrancy guard of the driver (\<open>DriverImpl.connect\<close>, \<open>DriverImpl.enter\<close>)\<close>

text \<open>
  A handler is JavaScript code. What matters of it here is the order of three kinds of
  step: an operation of its own, named by a number (\<open>Act\<close>); a change of host state that
  makes the host deliver, synchronously and before the step returns, a notification to
  which \<open>connect\<close> has bound the given handler (\<open>Signal\<close>); and the raising of an
  exception (\<open>Throw\<close>).
\<close>

datatype step = Act nat | Signal "step list" | Throw

text \<open>
  The part of the driver the guard touches: the flag, the messages logged by the
  \<open>catch\<close> clause, and, for observation, every operation that was executed together with
  the value the flag had at that moment.
\<close>

record DriverImpl =
  entered :: bool
  executed :: "(nat \<times> bool) list"
  logged :: nat

text \<open>
  \<open>enter\<close> returns at once when the flag is set; otherwise it sets the flag, runs the
  callback, logs an exception if one escapes, and clears the flag in \<open>finally\<close>.
  \<open>run\<close> executes a handler body and tells whether it completed (\<open>True\<close>) or threw.
  The callback that \<open>connect\<close> registers for a signal is
  \<open>(...args) => this.enter(() => handler.apply(this, args))\<close>, so the delivery of a
  notification is a call of \<open>enter\<close> on the bound handler.
\<close>

fun enter :: "step list \<Rightarrow> DriverImpl \<Rightarrow> DriverImpl"
and run :: "step list \<Rightarrow> DriverImpl \<Rightarrow> bool \<times> DriverImpl"
and run_step :: "step \<Rightarrow> DriverImpl \<Rightarrow> bool \<times> DriverImpl"
where
  "enter callback d =
     (if entered d then d
      else
        (let (ok, d') = run callback (d\<lparr>entered := True\<rparr>);
             d'' = (if ok then d' else d'\<lparr>logged := logged d' + 1\<rparr>)
         in d''\<lparr>entered := False\<rparr>))"
| "run [] d = (True, d)"
| "run (s # rest) d =
     (let (ok, d') = run_step s d
      in if ok then run rest d' else (False, d'))"
| "run_step (Act n) d = (True, d\<lparr>executed := executed d @ [(n, entered d)]\<rparr>)"
| "run_step (Signal handler) d = (True, enter handler d)"
| "run_step Throw d = (False, d)"

text \<open>The operations a handler body executes itself, up to its first exception.\<close>

fun own_acts :: "step list \<Rightarrow> nat list" where
  "own_acts [] = []"
| "own_acts (Act n # rest) = n # own_acts rest"
| "own_acts (Signal handler # rest) = own_acts rest"
| "own_acts (Throw # rest) = []"

text \<open>Whether a handler body raises an exception of its own.\<close>

fun throws :: "step list \<Rightarrow> bool" where
  "throws [] = False"
| "throws (Act n # rest) = throws rest"
| "throws (Signal handler # rest) = throws rest"
| "throws (Throw # rest) = True"

section \<open>The tabbed-master layout (\<open>engine/layout/tile_stair_layout.ts\<close>)\<close>

text \<open>
  Modelled from the spec: \<open>clip\<close> of \<open>util/func\<close> is not among the sources; it clamps
  a value to the bounds \<open>[min, max]\<close>.
\<close>

definition clip :: "'a::linorder \<Rightarrow> 'a \<Rightarrow> 'a \<Rightarrow> 'a" where
  "clip v lo hi = (if v < lo then lo else if v > hi then hi else v)"

text \<open>
  Modelled from the spec: the layout parts other than the stair part
  (\<open>engine/layout/layout_part.ts\<close>) and \<open>LayoutState\<close> are not among the sources. The
  layout reaches these fields of them: the angle and the wrapped part of a rotate part,
  whose \<open>rotate\<close> turns the angle by the given amount and stores it modulo 360; the
  primary size, ratio, gap and the two sub-parts of a half-split part; the gap of a stack
  part; and the persisted rotation, part rotation and master count of the layout state.
  The master ratio and the master count are JavaScript numbers, which need not be whole;
  they are modelled as rational numbers.
\<close>

record 'a RotateLayoutPart =
  angle :: int
  inner :: 'a

record ('p, 's) HalfSplitLayoutPart =
  primarySize :: rat
  ratio :: rat
  gap :: int
  primary :: 'p
  secondary :: 's

record StackLayoutPart =
  stack_gap :: int

record LayoutState =
  rotation :: int
  partRotation :: int
  state_numMasterTiles :: rat

definition rotate :: "int \<Rightarrow> 'a RotateLayoutPart \<Rightarrow> 'a RotateLayoutPart" where
  "rotate amount p = p\<lparr>angle := (angle p + amount) mod 360\<rparr>"

type_synonym tabbed_parts =
  "(StairLayoutPart, StackLayoutPart RotateLayoutPart) HalfSplitLayoutPart RotateLayoutPart"

record TabbedMasterLayout =
  parts :: tabbed_parts
  layout_state :: LayoutState
  layout_uid :: string

definition TabbedMasterLayout_id :: string where
  "TabbedMasterLayout_id = ''TabbedMasterLayout''"

definition MIN_MASTER_RATIO :: rat where "MIN_MASTER_RATIO = 2 / 10"
definition MAX_MASTER_RATIO :: rat where "MAX_MASTER_RATIO = 8 / 10"

definition numMasterTiles :: "TabbedMasterLayout \<Rightarrow> rat" where
  "numMasterTiles l = primarySize (inner (parts l))"

definition set_numMasterTiles :: "rat \<Rightarrow> TabbedMasterLayout \<Rightarrow> TabbedMasterLayout" where
  "set_numMasterTiles v l =
     l\<lparr>parts := (parts l)\<lparr>inner := (inner (parts l))\<lparr>primarySize := v\<rparr>\<rparr>,
       layout_state := (layout_state l)\<lparr>state_numMasterTiles := v\<rparr>\<rparr>"

definition masterRatio :: "TabbedMasterLayout \<Rightarrow> rat" where
  "masterRatio l = ratio (inner (parts l))"

definition set_masterRatio :: "rat \<Rightarrow> TabbedMasterLayout \<Rightarrow> TabbedMasterLayout" where
  "set_masterRatio v l = l\<lparr>parts := (parts l)\<lparr>inner := (inner (parts l))\<lparr>ratio := v\<rparr>\<rparr>\<rparr>"

text \<open>
  Modelled from the spec: the actions (\<open>controller/action\<close>) and the engine are not among
  the sources. An action is known by its kind; the calls that \<open>executeAction\<close> makes on
  the engine and on the action are recorded in the order they are made.
\<close>

datatype Action =
    DecreaseLayoutMasterAreaSize
  | IncreaseLayoutMasterAreaSize
  | IncreaseMasterAreaWindowCount
  | DecreaseMasterAreaWindowCount
  | Rotate
  | RotateReverse
  | RotatePart
  | OtherAction nat

datatype engine_call =
    ShowLayoutNotification
  | Arrange_currentSurface
  | ExecuteWithoutLayoutOverride Action

text \<open>
  \<open>slide\<close> of \<open>util/func\<close> is not among the sources either; \<open>executeAction\<close> takes it
  as a parameter.
\<close>

definition executeAction ::
  "(rat \<Rightarrow> rat \<Rightarrow> rat) \<Rightarrow> TabbedMasterLayout \<Rightarrow> Action \<Rightarrow> TabbedMasterLayout \<times> engine_call list"
where
  "executeAction slide l action =
     (case action of
        DecreaseLayoutMasterAreaSize \<Rightarrow>
          (set_masterRatio
             (clip (slide (masterRatio l) (- (5 / 100))) MIN_MASTER_RATIO MAX_MASTER_RATIO) l,
           [Arrange_currentSurface])
      | IncreaseLayoutMasterAreaSize \<Rightarrow>
          (set_masterRatio
             (clip (slide (masterRatio l) (5 / 100)) MIN_MASTER_RATIO MAX_MASTER_RATIO) l,
           [Arrange_currentSurface])
      | IncreaseMasterAreaWindowCount \<Rightarrow>
          ((if numMasterTiles l < 10 then set_numMasterTiles (numMasterTiles l + 1) l else l),
           [ShowLayoutNotification, Arrange_currentSurface])
      | DecreaseMasterAreaWindowCount \<Rightarrow>
          ((if numMasterTiles l > 0 then set_numMasterTiles (numMasterTiles l - 1) l else l),
           [ShowLayoutNotification, Arrange_currentSurface])
      | Rotate \<Rightarrow>
          (let l1 = l\<lparr>parts := rotate 90 (parts l)\<rparr>
           in (l1\<lparr>layout_state := (layout_state l1)\<lparr>rotation := angle (parts l1)\<rparr>\<rparr>,
               [Arrange_currentSurface]))
      | RotateReverse \<Rightarrow>
          (let l1 = l\<lparr>parts := rotate (- 90) (parts l)\<rparr>
           in (l1\<lparr>layout_state := (layout_state l1)\<lparr>rotation := angle (parts l1)\<rparr>\<rparr>,
               [Arrange_currentSurface]))
      | RotatePart \<Rightarrow>
          (let sec = rotate 90 (secondary (inner (parts l)));
               l1 = l\<lparr>parts := (parts l)\<lparr>inner := (inner (parts l))\<lparr>secondary := sec\<rparr>\<rparr>\<rparr>
           in (l1\<lparr>layout_state := (layout_state l1)\<lparr>partRotation := angle sec\<rparr>\<rparr>,
               [Arrange_currentSurface]))
      | OtherAction k \<Rightarrow> (l, [ExecuteWithoutLayoutOverride (OtherAction k)]))"

text \<open>How often a run of calls re-arranges the current surface.\<close>

definition arranges :: "engine_call list \<Rightarrow> nat" where
  "arranges calls = length (filter (\<lambda>c. c = Arrange_currentSurface) calls)"

text \<open>Executing a list of actions on the layout, one after the other.\<close>

fun run_actions ::
  "(rat \<Rightarrow> rat \<Rightarrow> rat) \<Rightarrow> TabbedMasterLayout \<Rightarrow> Action list \<Rightarrow> TabbedMasterLayout"
where
  "run_actions slide l [] = l"
| "run_actions slide l (a # as) = run_actions slide (fst (executeAction slide l a)) as"

section \<open>Windows of the driver (\<open>driver/window.ts\<close>)\<close>

text \<open>
  The client object of the window system, as far as \<open>commit\<close> and the accessors it
  uses read or write it. A \<open>QRect\<close> carries the same four numbers as a \<open>Rect\<close>, and
  \<open>Rect.fromQRect\<close> and \<open>toQRect\<close> copy them, so one type serves for both; the sizes
  \<open>minSize\<close> and \<open>maxSize\<close> are pairs of a width and a height.
\<close>

record Client =
  frameGeometry :: rect
  resizeable :: bool
  move :: bool
  resize :: bool
  noBorder :: bool
  keepAbove :: bool
  minSize :: "int \<times> int"
  maxSize :: "int \<times> int"
  client_desktop :: int
  client_screen :: int
  activities :: "string list"
  windowId :: nat

text \<open>
  Modelled from the spec: \<open>WindowConfig\<close> of \<open>engine/window\<close> is not among the sources;
  the spec gives the persisted per-window state as \<open>{group, minimized, allDesktops}\<close>.
  The proxy keeps one such state for each window id.
\<close>

record WindowConfig =
  config_group :: int
  config_minimized :: bool
  allDesktops :: bool

record DriverWindowImpl =
  client :: Client
  saved_desktop :: int
  saved_screen :: "int option"
  saved_group :: int
  is_hidden :: bool
  maximized :: bool
  noBorderManaged :: bool
  noBorderOriginal :: bool
  window_has_log :: bool
  window_has_proxy :: bool

text \<open>
  The last two fields tell whether the window carries the members \<open>log\<close> and \<open>proxy\<close>.
  The constructor declares and assigns neither (the driver passes it the proxy as a fifth
  argument, which it does not take).

  The workspace of the window system together with the proxy's window states (what
  \<open>commit\<close> may change), and what it only reads: the configuration, and whether the
  proxy offers the method \<open>workspace()\<close> that the setter of \<open>hidden\<close> calls on it. The
  class \<open>TSProxy\<close> of \<open>core/ts-proxy.hpp\<close> declares no such method.
\<close>

record Workspace =
  currentActivity :: string
  currentDesktop :: int
  desktops :: int
  windowStates :: "nat \<Rightarrow> WindowConfig"

record window_env =
  surfaces :: surface_env
  preventProtrusion :: bool
  proxy_workspace :: bool

text \<open>
  An operation on a window either returns, with the window and the workspace as it
  leaves them, or throws, with the error and the window and the workspace as they are at
  that moment.
\<close>

type_synonym window_state = "DriverWindowImpl \<times> Workspace"
type_synonym window_result = "js_error \<times> window_state + window_state"



text \<open>
  The setter of \<open>desktop\<close> logs, moves the client and saves the all-desktops state
  through the proxy.
\<close>

definition set_desktop :: "int \<Rightarrow> window_state \<Rightarrow> window_result" where
  "set_desktop d = (\<lambda>(w, ws).
     (if \<not> window_has_log w then Inl (TypeError, (w, ws))
      else
        (let w1 = w\<lparr>client := (client w)\<lparr>client_desktop := d\<rparr>\<rparr>
         in if \<not> window_has_proxy w1 then Inl (TypeError, (w1, ws))
            else
              (let c = client w1;
                   st = (windowStates ws (windowId c))\<lparr>allDesktops := (client_desktop c = -1)\<rparr>
               in Inr (w1, ws\<lparr>windowStates := (windowStates ws)(windowId c := st)\<rparr>)))))"

text \<open>
  The setter of \<open>hidden\<close>: a window is hidden by moving it to the last desktop and shown
  by moving it back. It logs first; then, whichever value it is given, it comes to read
  \<open>this.proxy.workspace().desktops\<close> before it changes anything but \<open>_hidden\<close>: in
  the first test when hiding, in the second when showing.
\<close>

definition set_hidden :: "window_env \<Rightarrow> bool \<Rightarrow> window_state \<Rightarrow> window_result" where
  "set_hidden env hide = (\<lambda>(w, ws).
     (if \<not> window_has_log w then Inl (TypeError, (w, ws))
      else
        (let w1 = w\<lparr>is_hidden := hide\<rparr>
         in if \<not> (window_has_proxy w1 \<and> proxy_workspace env) then Inl (TypeError, (w1, ws))
            else if hide \<and> client_desktop (client w1) \<noteq> desktops ws
            then set_desktop (desktops ws) (w1\<lparr>saved_desktop := client_desktop (client w1)\<rparr>, ws)
            else if client_desktop (client w1) = desktops ws
            then Inr (w1\<lparr>client := (client w1)\<lparr>client_desktop := saved_desktop w1\<rparr>\<rparr>, ws)
            else Inr (w1, ws))))"

text \<open>
  The getter of \<open>screen\<close> logs a screen that is \<open>null\<close>, negative or above 4, and
  returns it.
\<close>

definition window_screen :: "DriverWindowImpl \<Rightarrow> js_error + int option" where
  "window_screen w =
     (if (case saved_screen w of None \<Rightarrow> True | Some s \<Rightarrow> s < 0 \<or> s > 4) \<and> \<not> window_has_log w
      then Inl TypeError
      else Inr (saved_screen w))"

text \<open>
  The getter of \<open>surface\<close>. Its declared type admits \<open>null\<close>, but every path through
  it that returns ends in \<open>new DriverSurfaceImpl(...)\<close>.
\<close>

definition window_surface ::
  "window_env \<Rightarrow> Workspace \<Rightarrow> DriverWindowImpl \<Rightarrow> js_error + DriverSurfaceImpl option"
where
  "window_surface env ws w =
     (let act = (case activities (client w) of
                   [] \<Rightarrow> currentActivity ws
                 | a # _ \<Rightarrow>
                     if indexOf (activities (client w)) (currentActivity ws) \<ge> 0
                     then currentActivity ws
                     else a);
          desk = (if client_desktop (client w) \<ge> 0 then client_desktop (client w)
                  else currentDesktop ws)
      in case window_screen w of
           Inl e \<Rightarrow> Inl e
         | Inr scr \<Rightarrow> Inr (Some (new_DriverSurfaceImpl (surfaces env) scr act desk)))"

text \<open>
  The constructor. Whether the window should be ignored is read off the client and the
  configuration by the getter \<open>shouldIgnore\<close>, which uses neither \<open>log\<close> nor
  \<open>proxy\<close>; its result is taken as given. A window that is not to be ignored is shown
  at once, through the setter of \<open>hidden\<close>.
\<close>

definition new_DriverWindowImpl :: "window_env \<Rightarrow> bool \<Rightarrow> Client \<Rightarrow> Workspace \<Rightarrow> window_result" where
  "new_DriverWindowImpl env shouldIgnore c ws =
     (let w = \<lparr>client = c, saved_desktop = client_desktop c,
                saved_screen = Some (client_screen c), saved_group = 0, is_hidden = False,
                maximized = False, noBorderManaged = False, noBorderOriginal = noBorder c,
                window_has_log = False, window_has_proxy = False\<rparr>
      in if \<not> shouldIgnore then set_hidden env False (w, ws) else Inr (w, ws))"

text \<open>\<open>adjustGeometry\<close> applies the resize hints of the client to a geometry.\<close>

definition adjustGeometry :: "DriverWindowImpl \<Rightarrow> rect \<Rightarrow> rect" where
  "adjustGeometry w g =
     (let (wd, ht) =
            (if \<not> resizeable (client w)
             then (width (frameGeometry (client w)), height (frameGeometry (client w)))
             else (clip (width g) (fst (minSize (client w))) (fst (maxSize (client w))),
                   clip (height g) (snd (minSize (client w))) (snd (maxSize (client w)))))
      in Rect (xpos g) (ypos g) wd ht)"

text \<open>The border bookkeeping of \<open>commit\<close>, run when \<open>noBorder\<close> is given.\<close>

definition commit_noBorder :: "bool \<Rightarrow> DriverWindowImpl \<Rightarrow> DriverWindowImpl" where
  "commit_noBorder nb w =
     (let w1 = (if \<not> noBorderManaged w \<and> nb
                then w\<lparr>noBorderOriginal := noBorder (client w)\<rparr>
                else if noBorderManaged w \<and> \<not> noBorder (client w)
                then w\<lparr>noBorderOriginal := False\<rparr>
                else w);
          w2 = (if nb then w1\<lparr>client := (client w1)\<lparr>noBorder := True\<rparr>\<rparr>
                else if noBorderManaged w1
                then w1\<lparr>client := (client w1)\<lparr>noBorder := noBorderOriginal w1\<rparr>\<rparr>
                else w1)
      in w2\<lparr>noBorderManaged := nb\<rparr>)"

text \<open>
  The geometry that \<open>commit\<close> arrives at for a requested one: the resize hints, then,
  when protrusion prevention is on and the placement area of the client's screen does
  not include the result, a move by the overshoot of the right and bottom edges and the
  resize hints again.
\<close>

definition commit_geometry ::
  "window_env \<Rightarrow> Workspace \<Rightarrow> DriverWindowImpl \<Rightarrow> rect \<Rightarrow> rect"
where
  "commit_geometry env ws w geom =
     (let g1 = adjustGeometry w geom
      in if preventProtrusion env
         then
           (let area = clientArea (surfaces env) (Some (client_screen (client w))) (currentDesktop ws)
            in if \<not> rect_includes area g1
               then
                 (let a = xpos g1 + min (maxX area - maxX g1) 0;
                      b = ypos g1 + min (maxY area - maxY g1) 0
                  in adjustGeometry w (Rect a b (width g1) (height g1)))
               else g1)
         else g1)"

text \<open>
  The part of \<open>commit\<close> between the test of \<open>client.resize\<close> and the geometry: the
  border bookkeeping when \<open>noBorder\<close> is given, and \<open>keepAbove\<close> when it is given.
\<close>

definition commit_flags :: "bool option \<Rightarrow> bool option \<Rightarrow> DriverWindowImpl \<Rightarrow> DriverWindowImpl" where
  "commit_flags nb ka w =
     (let w2 = (case nb of None \<Rightarrow> w | Some b \<Rightarrow> commit_noBorder b w)
      in (case ka of None \<Rightarrow> w2
          | Some k \<Rightarrow> w2\<lparr>client := (client w2)\<lparr>keepAbove := k\<rparr>\<rparr>))"

text \<open>
  \<open>commit\<close>. The three arguments are optional. The comparison of the frame geometry
  with the new one is taken by value; where it decides, writing an equal rectangle and
  not writing give the same client. Apart from the getter and the setters it calls,
  \<open>commit\<close> itself logs when it finds no surface, before it writes the geometry of a
  window that is not being moved, and when it finds the geometry unchanged.
\<close>

definition commit ::
  "window_env \<Rightarrow> rect option \<Rightarrow> bool option \<Rightarrow> bool option
     \<Rightarrow> window_state \<Rightarrow> window_result"
where
  "commit env geom nb ka = (\<lambda>(w, ws).
     (case window_surface env ws w of
        Inl e \<Rightarrow> Inl (e, (w, ws))
      | Inr None \<Rightarrow>
          if \<not> window_has_log w then Inl (TypeError, (w, ws))
          else set_hidden env True (w, ws)
      | Inr (Some srf) \<Rightarrow>
          (case set_hidden env False (w, ws) of
             Inl thrown \<Rightarrow> Inl thrown
           | Inr (w1, ws1) \<Rightarrow>
               if resize (client w1) then Inr (w1, ws1)
               else
                 (let w3 = commit_flags nb ka w1
                  in case geom of
                       None \<Rightarrow> Inr (w3, ws1)
                     | Some g0 \<Rightarrow>
                         (let g = commit_geometry env ws1 w3 g0
                          in if frameGeometry (client w3) \<noteq> g
                             then
                               (if \<not> move (client w3)
                                then
                                  (if \<not> window_has_log w3 then Inl (TypeError, (w3, ws1))
                                   else Inr (w3\<lparr>client := (client w3)\<lparr>frameGeometry := g\<rparr>\<rparr>,
                                             ws1))
                                else Inr (w3\<lparr>client := (client w3)\<lparr>frameGeometry :=
                                            (frameGeometry (client w3))
                                              \<lparr>width := width g, height := height g\<rparr>\<rparr>\<rparr>, ws1))
                             else
                               (if \<not> window_has_log w3 then Inl (TypeError, (w3, ws1))
                                else Inr (w3, ws1)))))))"





section \<open>Properties of the stair layout part\<close>

declare stair_loop.simps [simp del]

lemma stair_loop_res:
  "snd (stair_loop sp area i tiles res) =
     res @ map (stair_rect sp area (length tiles)) [i..<length tiles]"
proof (induction sp area i tiles res rule: stair_loop.induct)
  case (1 sp area i tiles res)
  show ?case
  proof (cases "i < length tiles")
    case True
    with 1 show ?thesis
      by (subst stair_loop.simps) (simp add: upt_conv_Cons)
  next
    case False
    then show ?thesis
      by (subst stair_loop.simps) simp
  qed
qed

lemma stair_loop_tiles_length:
  "length (fst (stair_loop sp area i tiles res)) = length tiles"
proof (induction sp area i tiles res rule: stair_loop.induct)
  case (1 sp area i tiles res)
  show ?case
  proof (cases "i < length tiles")
    case True
    with 1 show ?thesis
      by (subst stair_loop.simps) simp
  next
    case False
    then show ?thesis
      by (subst stair_loop.simps) simp
  qed
qed

lemma stair_loop_tiles_nth:
  "j < length tiles \<Longrightarrow>
   fst (stair_loop sp area i tiles res) ! j =
     (if i \<le> j then (tiles ! j)\<lparr>geometry := stair_rect sp area (length tiles) j\<rparr>
      else tiles ! j)"
proof (induction sp area i tiles res rule: stair_loop.induct)
  case (1 sp area i tiles res)
  show ?case
  proof (cases "i < length tiles")
    case True
    with 1 show ?thesis
    proof (cases "j = i")
      case True
      with 1 \<open>i < length tiles\<close> show ?thesis
        by (subst stair_loop.simps) simp
    next
      case False
      then have "Suc i \<le> j \<longleftrightarrow> i \<le> j" by arith
      with 1 False \<open>i < length tiles\<close> show ?thesis
        by (subst stair_loop.simps) simp
    qed
  next
    case False
    with 1 show ?thesis
      by (subst stair_loop.simps) simp
  qed
qed

lemma stair_apply_fst:
  "fst (stair_apply part area ws) = map (stair_rect (space part) area (length ws)) [0..<length ws]"
  using stair_loop_res [of "space part" area 0 "map (\<lambda>t. t\<lparr>state := Tiled\<rparr>) ws" "[]"]
  by (simp add: stair_apply_def Let_def case_prod_beta)

lemma stair_apply_snd_length:
  "length (snd (stair_apply part area ws)) = length ws"
  using stair_loop_tiles_length [of "space part" area 0 "map (\<lambda>t. t\<lparr>state := Tiled\<rparr>) ws" "[]"]
  by (simp add: stair_apply_def Let_def case_prod_beta)

lemma stair_apply_snd_nth:
  "i < length ws \<Longrightarrow>
   snd (stair_apply part area ws) ! i =
     (ws ! i)\<lparr>state := Tiled, geometry := stair_rect (space part) area (length ws) i\<rparr>"
  using stair_loop_tiles_nth [of i "map (\<lambda>t. t\<lparr>state := Tiled\<rparr>) ws" "space part" area 0 "[]"]
  by (simp add: stair_apply_def Let_def case_prod_beta)

text \<open>
  Claim C2. For every list of \<open>n\<close> tileable windows and every area, \<open>apply\<close> of the stair
  part returns exactly \<open>n\<close> geometries, one per window in input order: the geometry at
  index \<open>i\<close> is the area moved by \<open>step * (n - 1 - i)\<close> along x and \<open>step * i\<close> along y,
  with width and height reduced by the same amounts, and window \<open>i\<close> leaves tiled and
  carrying that geometry. With three windows, the area \<open>(0, 0, 900, 600)\<close> and the step 24
  of a new part the geometries are \<open>(48, 0, 852, 600)\<close>, \<open>(24, 24, 876, 576)\<close> and
  \<open>(0, 48, 900, 552)\<close>.
\<close>

theorem stair_apply_geometries:
  "length (fst (stair_apply part area ws)) = length ws \<and>
   length (snd (stair_apply part area ws)) = length ws \<and>
   (\<forall>i < length ws.
      fst (stair_apply part area ws) ! i =
        Rect (xpos area + space part * (int (length ws) - 1 - int i))
             (ypos area + space part * int i)
             (width area - space part * (int (length ws) - 1 - int i))
             (height area - space part * int i) \<and>
      snd (stair_apply part area ws) ! i =
        (ws ! i)\<lparr>state := Tiled, geometry := fst (stair_apply part area ws) ! i\<rparr>) \<and>
   fst (stair_apply new_StairLayoutPart (Rect 0 0 900 600) [w0, w1, w2]) =
     [Rect 48 0 852 600, Rect 24 24 876 576, Rect 0 48 900 552]"
proof -
  have len: "length (fst (stair_apply part area ws)) = length ws"
    by (simp add: stair_apply_fst)
  have nth: "fst (stair_apply part area ws) ! i =
        Rect (xpos area + space part * (int (length ws) - 1 - int i))
             (ypos area + space part * int i)
             (width area - space part * (int (length ws) - 1 - int i))
             (height area - space part * int i)" if "i < length ws" for i
    using that by (simp add: stair_apply_fst stair_rect_def Let_def algebra_simps)
  have win: "snd (stair_apply part area ws) ! i =
        (ws ! i)\<lparr>state := Tiled, geometry := fst (stair_apply part area ws) ! i\<rparr>"
    if "i < length ws" for i
    using that by (simp add: stair_apply_snd_nth stair_apply_fst)
  have ex: "fst (stair_apply new_StairLayoutPart (Rect 0 0 900 600) [w0, w1, w2]) =
     [Rect 48 0 852 600, Rect 24 24 876 576, Rect 0 48 900 552]"
    by (simp add: stair_apply_fst new_StairLayoutPart_def stair_rect_def Rect_def Let_def
        upt_conv_Cons)
  from len nth win ex show ?thesis
    by (simp add: stair_apply_snd_length)
qed

theorem stair_apply_geometries_witness:
  "(1::nat) < length [\<lparr>win_id = ''a'', state = Undecided, geometry = Rect 5 5 10 10\<rparr>, \<lparr>win_id = ''b'', state = Floating, geometry = Rect 0 0 50 50\<rparr>] \<and>
   fst (stair_apply \<lparr>space = 16\<rparr> (Rect 10 20 300 200) [\<lparr>win_id = ''a'', state = Undecided, geometry = Rect 5 5 10 10\<rparr>, \<lparr>win_id = ''b'', state = Floating, geometry = Rect 0 0 50 50\<rparr>]) ! 1 = Rect 10 36 300 184 \<and>
   snd (stair_apply \<lparr>space = 16\<rparr> (Rect 10 20 300 200) [\<lparr>win_id = ''a'', state = Undecided, geometry = Rect 5 5 10 10\<rparr>, \<lparr>win_id = ''b'', state = Floating, geometry = Rect 0 0 50 50\<rparr>]) ! 1 =
     \<lparr>win_id = ''b'', state = Tiled, geometry = Rect 10 36 300 184\<rparr>"
  using stair_apply_geometries [of "\<lparr>space = 16\<rparr>" "Rect 10 20 300 200" "[\<lparr>win_id = ''a'', state = Undecided, geometry = Rect 5 5 10 10\<rparr>, \<lparr>win_id = ''b'', state = Floating, geometry = Rect 0 0 50 50\<rparr>]"]
  by (simp add: Rect_def)

text \<open>
  Claim C10. For every area, window list, basis window and delta, \<open>adjust\<close> of the stair
  part returns the delta it was given and leaves the part and every window as they were:
  the part absorbs nothing of a resize adjustment.
\<close>

theorem stair_adjust_identity:
  "stair_adjust part area tiles basis delta = (delta, part, tiles)"
  by (simp add: stair_adjust_def)

section \<open>Properties of the layout registry\<close>

lemmas layout_id_defs =
  MonocleLayout_id_def QuarterLayout_id_def SpiralLayout_id_def SpreadLayout_id_def
  StairLayout_id_def ThreeColumnLayout_id_def TileLayout_id_def

lemma createLayoutFromId_key:
  "createLayoutFromId uid (Some (key_of ID)) = createLayoutFromId uid ID"
  by (cases ID) (simp_all add: key_of_def createLayoutFromId_def layout_id_defs)

lemma createLayoutFromId_unknown:
  "\<forall>k \<in> set known_layout_ids. ID \<noteq> Some k \<Longrightarrow> createLayoutFromId uid ID = FloatingLayout"
  by (simp add: known_layout_ids_def createLayoutFromId_def)

lemma loadLayout_snd [simp]:
  "currentID (snd (snd (loadLayout ID he))) = currentID (snd he)"
  "previousID (snd (snd (loadLayout ID he))) = previousID (snd he)"
  "currentIndex (snd (snd (loadLayout ID he))) = currentIndex (snd he)"
  "entry_uid (snd (snd (loadLayout ID he))) = entry_uid (snd he)"
  by (cases he; simp add: loadLayout_def new_object_def split: option.splits)+

lemma wf_entryD:
  "wf_entry h e \<Longrightarrow> layouts e k = Some r \<Longrightarrow>
     k \<notin> set object_prototype_names \<and>
     r \<noteq> FloatingLayout_instance \<and> r < length h \<and>
     h ! r = createLayoutFromId (entry_uid e) (Some k)"
  by (simp add: wf_entry_def)

lemma wf_entry_extend:
  assumes "wf_entry h e"
  shows "wf_entry (h @ t) e"
  unfolding wf_entry_def
proof (intro allI impI)
  fix k r assume "layouts e k = Some r"
  from wf_entryD [OF assms this]
  show "k \<notin> set object_prototype_names \<and>
        r \<noteq> FloatingLayout_instance \<and> r < length (h @ t) \<and>
        (h @ t) ! r = createLayoutFromId (entry_uid e) (Some k)"
    by (simp add: nth_append)
qed

lemma loadLayout_cases:
  obtains (cached) r where "layouts e (key_of ID) = Some r"
      and "loadLayout ID (h, e) = (Layout r, h, e)"
    | (inherited) "layouts e (key_of ID) = None" and "key_of ID \<in> set object_prototype_names"
      and "loadLayout ID (h, e) = (Inherited (key_of ID), h, e)"
    | (created) "layouts e (key_of ID) = None" and "key_of ID \<notin> set object_prototype_names"
      and "loadLayout ID (h, e) =
             (Layout (length h), h @ [createLayoutFromId (entry_uid e) ID],
              e\<lparr>layouts := (layouts e)(key_of ID \<mapsto> length h)\<rparr>)"
proof (cases "layouts e (key_of ID)")
  case (Some r)
  then show ?thesis by (intro cached [of r]) (simp_all add: loadLayout_def)
next
  case None
  show ?thesis
  proof (cases "key_of ID \<in> set object_prototype_names")
    case True
    with None show ?thesis by (intro inherited) (simp_all add: loadLayout_def)
  next
    case False
    with None show ?thesis by (intro created) (simp_all add: loadLayout_def new_object_def)
  qed
qed

lemma loadLayout_wf:
  assumes wf: "wf_entry h e" and ne: "FloatingLayout_instance < length h"
    and l: "loadLayout ID (h, e) = (v, h', e')"
  shows "\<exists>t. h' = h @ t" and "wf_entry h' e'"
proof (atomize (full), cases ID h e rule: loadLayout_cases)
  case (cached r)
  with l wf show "(\<exists>t. h' = h @ t) \<and> wf_entry h' e'" by simp
next
  case inherited
  with l wf show "(\<exists>t. h' = h @ t) \<and> wf_entry h' e'" by simp
next
  case created
  with l have h': "h' = h @ [createLayoutFromId (entry_uid e) ID]"
    and e': "e' = e\<lparr>layouts := (layouts e)(key_of ID \<mapsto> length h)\<rparr>"
    by simp_all
  have "wf_entry h' e'"
    unfolding wf_entry_def
  proof (intro allI impI)
    fix k r0 assume c: "layouts e' k = Some r0"
    show "k \<notin> set object_prototype_names \<and>
          r0 \<noteq> FloatingLayout_instance \<and> r0 < length h' \<and>
          h' ! r0 = createLayoutFromId (entry_uid e') (Some k)"
    proof (cases "k = key_of ID")
      case True
      with c e' have "r0 = length h" by simp
      with True ne created(2) show ?thesis
        by (simp add: h' e' createLayoutFromId_key FloatingLayout_instance_def)
    next
      case False
      with c e' have "layouts e k = Some r0" by simp
      from wf_entryD [OF wf this] show ?thesis
        by (simp add: h' e' nth_append)
    qed
  qed
  with h' show "(\<exists>t. h' = h @ t) \<and> wf_entry h' e'" by simp
qed

lemma loadLayout_layout:
  assumes wf: "wf_entry h e" and ne: "FloatingLayout_instance < length h"
    and l: "loadLayout ID (h, e) = (v, h', e')"
    and own: "key_of ID \<notin> set object_prototype_names"
  shows "\<exists>r. v = Layout r \<and> r \<noteq> FloatingLayout_instance \<and> r < length h' \<and>
             h' ! r = createLayoutFromId (entry_uid e) ID \<and>
             layouts e' (key_of ID) = Some r"
proof (cases ID h e rule: loadLayout_cases)
  case (cached r)
  with l wf_entryD [OF wf cached(1)] show ?thesis
    by (simp add: createLayoutFromId_key)
next
  case inherited
  with own show ?thesis by simp
next
  case created
  with l ne show ?thesis
    by (auto simp: FloatingLayout_instance_def)
qed

lemma loadLayout_inherited:
  assumes wf: "wf_entry h e"
    and l: "loadLayout ID (h, e) = (v, h', e')"
    and inh: "key_of ID \<in> set object_prototype_names"
  shows "v = Inherited (key_of ID) \<and> h' = h \<and> e' = e"
proof (cases ID h e rule: loadLayout_cases)
  case (cached r)
  with wf_entryD [OF wf cached(1)] inh show ?thesis by simp
next
  case inherited
  with l show ?thesis by simp
next
  case created
  with inh show ?thesis by simp
qed

lemma new_LayoutStoreEntry_result:
  assumes ne: "FloatingLayout_instance < length h"
    and n: "new_LayoutStoreEntry env uid h = (h', e)"
  shows "\<exists>t. h' = h @ t" and "wf_entry h' e"
proof -
  let ?cur = "case persisted_classID env uid of
                Some c \<Rightarrow> if c \<noteq> [] then Some c else js_nth (layoutOrder env) 0
              | None \<Rightarrow> js_nth (layoutOrder env) 0"
  let ?e = "\<lparr>currentIndex = Some 0, currentID = ?cur, layouts = Map.empty,
            previousID = ?cur, entry_uid = uid\<rparr>"
  have wf0: "wf_entry h ?e"
    by (simp add: wf_entry_def)
  obtain r where l: "loadLayout ?cur (h, ?e) = (r, h', e)"
    using n unfolding new_LayoutStoreEntry_def Let_def
    by (cases "loadLayout ?cur (h, ?e)") simp
  from loadLayout_wf [OF wf0 ne l]
  show "\<exists>t. h' = h @ t" and "wf_entry h' e" .
qed

lemma wf_storeD:
  "wf_store ls \<Longrightarrow> store ls key = Some e \<Longrightarrow> wf_entry (objects_of ls) e"
  by (simp add: wf_store_def)

lemma wf_store_update:
  assumes wf: "wf_store ls" and ext: "\<exists>t. h' = objects_of ls @ t" and e: "wf_entry h' e"
  shows "wf_store (ls\<lparr>objects_of := h', store := (store ls)(key \<mapsto> e)\<rparr>)"
proof -
  from ext obtain t where h': "h' = objects_of ls @ t" ..
  from wf have a: "FloatingLayout_instance < length (objects_of ls)"
    and b: "objects_of ls ! FloatingLayout_instance = FloatingLayout"
    by (simp_all add: wf_store_def)
  have "wf_entry h' e0" if "((store ls)(key \<mapsto> e)) k = Some e0" for k e0
  proof (cases "k = key")
    case True
    with that e show ?thesis by simp
  next
    case False
    with that have "store ls k = Some e0" by simp
    from wf_entry_extend [OF wf_storeD [OF wf this]] show ?thesis
      by (simp add: h')
  qed
  with a b show ?thesis
    by (simp add: wf_store_def h' nth_append)
qed

lemma getEntry_result:
  assumes wf: "wf_store ls" and g: "getEntry env key ls = (e, ls1)"
  shows "wf_store ls1" and "store ls1 key = Some e"
proof (atomize (full), cases "store ls key")
  case None
  obtain h' e0 where n: "new_LayoutStoreEntry env key (objects_of ls) = (h', e0)"
    by (cases "new_LayoutStoreEntry env key (objects_of ls)") blast
  from wf have ne: "FloatingLayout_instance < length (objects_of ls)"
    by (simp add: wf_store_def)
  from g None n have e: "e = e0"
    and ls1: "ls1 = ls\<lparr>objects_of := h', store := (store ls)(key \<mapsto> e0)\<rparr>"
    by (auto simp: getEntry_def)
  from wf_store_update [OF wf new_LayoutStoreEntry_result [OF ne n]]
  show "wf_store ls1 \<and> store ls1 key = Some e"
    by (simp add: e ls1)
next
  case (Some e0)
  with g wf show "wf_store ls1 \<and> store ls1 key = Some e"
    by (simp add: getEntry_def)
qed


lemma getCurrentLayout_shown:
  assumes wf: "wf_store ls" and shown: "\<not> ignore srf"
    and g: "getEntry env (string_of_screen (screen srf)) ls = (e, ls1)"
    and l: "loadLayout (currentID e) (objects_of ls1, e) = (v, h', e')"
  shows "getCurrentLayout env srf ls =
           (v, ls1\<lparr>objects_of := h', store := (store ls1)(string_of_screen (screen srf) \<mapsto> e')\<rparr>)"
    and "wf_store (snd (getCurrentLayout env srf ls))"
    and "wf_entry (objects_of ls1) e" and "FloatingLayout_instance < length (objects_of ls1)"
proof -
  let ?key = "string_of_screen (screen srf)"
  show c: "getCurrentLayout env srf ls =
           (v, ls1\<lparr>objects_of := h', store := (store ls1)(?key \<mapsto> e')\<rparr>)"
    using shown g l by (simp add: getCurrentLayout_def currentLayout_def Let_def)
  note ge = getEntry_result [OF wf g]
  from ge(1) show ne: "FloatingLayout_instance < length (objects_of ls1)"
    by (simp add: wf_store_def)
  show we: "wf_entry (objects_of ls1) e"
    by (rule wf_storeD [OF ge])
  from wf_store_update [OF ge(1) loadLayout_wf [OF we ne l]]
  show "wf_store (snd (getCurrentLayout env srf ls))"
    by (simp add: c)
qed

lemma getCurrentLayout_again:
  assumes shown: "\<not> ignore srf"
    and st: "store ls (string_of_screen (screen srf)) = Some e"
    and c: "layouts e (key_of (currentID e)) = Some r"
  shows "getCurrentLayout env srf ls = (Layout r, ls)"
proof -
  have "ls\<lparr>objects_of := objects_of ls,
           store := (store ls)(string_of_screen (screen srf) \<mapsto> e)\<rparr> = ls"
    using st by (simp add: map_upd_triv)
  with shown st c show ?thesis
    by (simp add: getCurrentLayout_def getEntry_def currentLayout_def loadLayout_def Let_def)
qed

text \<open>
  Claim C7, as amended. In a registry as its operations leave it: for every surface whose
  \<open>ignore\<close> flag is set, resolving the current layout yields the floating layout
  singleton and changes nothing. For every other surface whose entry's current class id
  is not among the known ids and does not name a property that every object inherits,
  it yields a floating layout too, but one that the entry created and caches under that
  id, an object other than the singleton; resolving again yields the same object and
  changes nothing. When the current id names an inherited property, what is resolved is
  the inherited value: no layout is created.
\<close>

theorem getCurrentLayout_floating:
  assumes "wf_store ls"
  shows
    "(ignore srf \<longrightarrow>
        getCurrentLayout env srf ls = (Layout FloatingLayout_instance, ls) \<and>
        objects_of ls ! FloatingLayout_instance = FloatingLayout) \<and>
     (let key = string_of_screen (screen srf);
          cur = currentID (fst (getEntry env key ls));
          resolved = fst (getCurrentLayout env srf ls);
          ls' = snd (getCurrentLayout env srf ls)
      in (\<not> ignore srf \<and> (\<forall>k \<in> set known_layout_ids. cur \<noteq> Some k) \<and>
          key_of cur \<notin> set object_prototype_names \<longrightarrow>
            (\<exists>r e'. resolved = Layout r \<and> r \<noteq> FloatingLayout_instance \<and>
               r < length (objects_of ls') \<and> objects_of ls' ! r = FloatingLayout \<and>
               store ls' key = Some e' \<and> layouts e' (key_of cur) = Some r \<and>
               getCurrentLayout env srf ls' = (Layout r, ls'))) \<and>
         (\<not> ignore srf \<and> key_of cur \<in> set object_prototype_names \<longrightarrow>
            resolved = Inherited (key_of cur) \<and>
            objects_of ls' = objects_of (snd (getEntry env key ls))))"
proof (intro conjI)
  show "ignore srf \<longrightarrow>
        getCurrentLayout env srf ls = (Layout FloatingLayout_instance, ls) \<and>
        objects_of ls ! FloatingLayout_instance = FloatingLayout"
    using assms by (simp add: getCurrentLayout_def wf_store_def)
next
  let ?key = "string_of_screen (screen srf)"
  obtain e ls1 where g: "getEntry env ?key ls = (e, ls1)"
    by (cases "getEntry env ?key ls") blast
  obtain v h' e' where l: "loadLayout (currentID e) (objects_of ls1, e) = (v, h', e')"
    by (cases "loadLayout (currentID e) (objects_of ls1, e)") blast
  let ?ls' = "ls1\<lparr>objects_of := h', store := (store ls1)(?key \<mapsto> e')\<rparr>"
  have own: "\<exists>r e''. v = Layout r \<and> r \<noteq> FloatingLayout_instance \<and>
               r < length (objects_of ?ls') \<and> objects_of ?ls' ! r = FloatingLayout \<and>
               store ?ls' ?key = Some e'' \<and> layouts e'' (key_of (currentID e)) = Some r \<and>
               getCurrentLayout env srf ?ls' = (Layout r, ?ls')"
    if shown: "\<not> ignore srf" and unknown: "\<forall>k \<in> set known_layout_ids. currentID e \<noteq> Some k"
      and no: "key_of (currentID e) \<notin> set object_prototype_names"
  proof -
    note s = getCurrentLayout_shown [OF assms shown g l]
    from loadLayout_layout [OF s(3,4) l no]
    obtain r where r: "v = Layout r" "r \<noteq> FloatingLayout_instance" "r < length h'"
      "h' ! r = createLayoutFromId (entry_uid e) (currentID e)"
      "layouts e' (key_of (currentID e)) = Some r"
      by blast
    have cur: "currentID e' = currentID e"
      using loadLayout_snd(1) [of "currentID e" "(objects_of ls1, e)"] l by simp
    have again: "getCurrentLayout env srf ?ls' = (Layout r, ?ls')"
      by (rule getCurrentLayout_again [OF shown, of _ e']) (simp_all add: cur r(5))
    from r createLayoutFromId_unknown [OF unknown] again show ?thesis
      by simp
  qed
  have inh: "v = Inherited (key_of (currentID e)) \<and> objects_of ?ls' = objects_of ls1"
    if shown: "\<not> ignore srf" and yes: "key_of (currentID e) \<in> set object_prototype_names"
  proof -
    note s = getCurrentLayout_shown [OF assms shown g l]
    from loadLayout_inherited [OF s(3) l yes] show ?thesis by simp
  qed
  have c: "\<not> ignore srf \<Longrightarrow> getCurrentLayout env srf ls = (v, ?ls')"
    by (rule getCurrentLayout_shown(1) [OF assms _ g l])
  show "let key = string_of_screen (screen srf);
          cur = currentID (fst (getEntry env key ls));
          resolved = fst (getCurrentLayout env srf ls);
          ls' = snd (getCurrentLayout env srf ls)
      in (\<not> ignore srf \<and> (\<forall>k \<in> set known_layout_ids. cur \<noteq> Some k) \<and>
          key_of cur \<notin> set object_prototype_names \<longrightarrow>
            (\<exists>r e'. resolved = Layout r \<and> r \<noteq> FloatingLayout_instance \<and>
               r < length (objects_of ls') \<and> objects_of ls' ! r = FloatingLayout \<and>
               store ls' key = Some e' \<and> layouts e' (key_of cur) = Some r \<and>
               getCurrentLayout env srf ls' = (Layout r, ls'))) \<and>
         (\<not> ignore srf \<and> key_of cur \<in> set object_prototype_names \<longrightarrow>
            resolved = Inherited (key_of cur) \<and>
            objects_of ls' = objects_of (snd (getEntry env key ls)))"
    unfolding Let_def
  proof (intro conjI impI)
    assume a: "\<not> ignore srf \<and>
      (\<forall>k \<in> set known_layout_ids. currentID (fst (getEntry env ?key ls)) \<noteq> Some k) \<and>
      key_of (currentID (fst (getEntry env ?key ls))) \<notin> set object_prototype_names"
    with own show "\<exists>r e'. fst (getCurrentLayout env srf ls) = Layout r \<and>
        r \<noteq> FloatingLayout_instance \<and>
        r < length (objects_of (snd (getCurrentLayout env srf ls))) \<and>
        objects_of (snd (getCurrentLayout env srf ls)) ! r = FloatingLayout \<and>
        store (snd (getCurrentLayout env srf ls)) ?key = Some e' \<and>
        layouts e' (key_of (currentID (fst (getEntry env ?key ls)))) = Some r \<and>
        getCurrentLayout env srf (snd (getCurrentLayout env srf ls)) =
          (Layout r, snd (getCurrentLayout env srf ls))"
      by (simp add: g c)
  next
    assume a: "\<not> ignore srf \<and>
      key_of (currentID (fst (getEntry env ?key ls))) \<in> set object_prototype_names"
    with inh show "fst (getCurrentLayout env srf ls) =
        Inherited (key_of (currentID (fst (getEntry env ?key ls))))"
      and "objects_of (snd (getCurrentLayout env srf ls)) =
        objects_of (snd (getEntry env ?key ls))"
      by (simp_all add: g c)
  qed
qed


lemma cycleLayout_snd:
  "currentIndex (snd (snd (cycleLayout env step he))) =
     Some (case currentIndex (snd he) of
             Some i \<Rightarrow> wrapIndex (i + step) (int (length (layoutOrder env)))
           | None \<Rightarrow> 0)"
  "currentID (snd (snd (cycleLayout env step he))) =
     js_nth (layoutOrder env)
       (case currentIndex (snd he) of
             Some i \<Rightarrow> wrapIndex (i + step) (int (length (layoutOrder env)))
           | None \<Rightarrow> 0)"
  "previousID (snd (snd (cycleLayout env step he))) = currentID (snd he)"
  unfolding cycleLayout_def Let_def case_prod_beta
  by simp_all

lemma new_LayoutStoreEntry_snd:
  "currentIndex (snd (new_LayoutStoreEntry env uid h)) = Some 0"
  "currentID (snd (new_LayoutStoreEntry env uid h)) =
     (case persisted_classID env uid of
        Some c \<Rightarrow> if c \<noteq> [] then Some c else js_nth (layoutOrder env) 0
      | None \<Rightarrow> js_nth (layoutOrder env) 0)"
  unfolding new_LayoutStoreEntry_def Let_def case_prod_beta
  by simp_all

lemma wrapIndex_forth_back: "0 \<le> n \<Longrightarrow> wrapIndex (wrapIndex (0 + 1) n + (- 1)) n = 0"
  unfolding wrapIndex_def by (cases "n = 0"; cases "n = 1"; simp)

lemma cycleLayout_fresh_returns_to_first:
  "currentID (snd (snd (cycleLayout env (- 1)
     (snd (cycleLayout env 1 (new_LayoutStoreEntry env uid h)))))) = js_nth (layoutOrder env) 0"
  by (simp only: cycleLayout_snd new_LayoutStoreEntry_snd option.case wrapIndex_forth_back
      of_nat_0_le_iff)

text \<open>
  Claim C5 says that \<open>cycleLayout(+1)\<close> followed by \<open>cycleLayout(-1)\<close> on a fresh entry
  restores the current layout id, also when that id was persisted. The constructor takes
  the current id from the persisted state but leaves the current index at 0, so the two
  calls end at the first configured layout (lemma \<open>cycleLayout_fresh_returns_to_first\<close>).
  With the order tile, monocle and a persisted monocle layout the entry starts at the
  monocle layout and ends at the tile layout.
\<close>

theorem cycleLayout_fresh_persisted_not_restored:
  "currentID (snd (new_LayoutStoreEntry
      \<lparr>layoutOrder = [TileLayout_id, MonocleLayout_id],
       persisted_classID = (\<lambda>uid. Some MonocleLayout_id)\<rparr> ''0'' initial_objects))
     = Some ''MonocleLayout'' \<and>
   currentID (snd (snd (cycleLayout
      \<lparr>layoutOrder = [TileLayout_id, MonocleLayout_id],
       persisted_classID = (\<lambda>uid. Some MonocleLayout_id)\<rparr> (- 1)
      (snd (cycleLayout
        \<lparr>layoutOrder = [TileLayout_id, MonocleLayout_id],
         persisted_classID = (\<lambda>uid. Some MonocleLayout_id)\<rparr> 1
        (new_LayoutStoreEntry
          \<lparr>layoutOrder = [TileLayout_id, MonocleLayout_id],
           persisted_classID = (\<lambda>uid. Some MonocleLayout_id)\<rparr> ''0'' initial_objects))))))
     = Some ''TileLayout''"
  by (simp add: cycleLayout_snd new_LayoutStoreEntry_snd wrapIndex_def js_nth_def
      MonocleLayout_id_def TileLayout_id_def)

lemma updateCurrentIndex_ids [simp]:
  "currentID (updateCurrentIndex env e) = currentID e"
  "previousID (updateCurrentIndex env e) = previousID e"
  by (simp_all add: updateCurrentIndex_def Let_def)

lemma toggleLayout_snd:
  "currentID (snd (snd (toggleLayout env X he))) =
     (if currentID (snd he) = Some X then previousID (snd he) else Some X)"
  "previousID (snd (snd (toggleLayout env X he))) =
     (if currentID (snd he) = Some X then Some X else currentID (snd he))"
  unfolding toggleLayout_def Let_def case_prod_beta
  by simp_all

text \<open>
  Claim C6. For every entry and every layout id \<open>X\<close>, two calls of \<open>toggleLayout(X)\<close> in a
  row leave the current layout id as it was before the first. One call makes \<open>X\<close>
  current and the old current id the previous one, or, when \<open>X\<close> is current already,
  swaps the current and the previous id.
\<close>

theorem toggleLayout_twice:
  "currentID (snd (snd (toggleLayout env X (snd (toggleLayout env X (h, e)))))) = currentID e \<and>
   currentID (snd (snd (toggleLayout env X (h, e)))) =
     (if currentID e = Some X then previousID e else Some X) \<and>
   previousID (snd (snd (toggleLayout env X (h, e)))) =
     (if currentID e = Some X then Some X else currentID e)"
  by (simp add: toggleLayout_snd)

lemma new_entry_example:
  "new_LayoutStoreEntry \<lparr>layoutOrder = [''TabbedMasterLayout''], persisted_classID = (\<lambda>uid. None)\<rparr>
      ''0'' initial_objects =
   ([FloatingLayout, FloatingLayout],
    \<lparr>currentIndex = Some 0, currentID = Some ''TabbedMasterLayout'',
     layouts = [''TabbedMasterLayout'' \<mapsto> 1],
     previousID = Some ''TabbedMasterLayout'', entry_uid = ''0''\<rparr>)"
  by (simp add: new_LayoutStoreEntry_def loadLayout_def new_object_def initial_objects_def
      js_nth_def key_of_def createLayoutFromId_def layout_id_defs object_prototype_names_def
      Let_def)

lemma string_of_screen_0: "string_of_screen (Some 0) = ''0''"
  by (simp add: string_of_screen_def string_of_int_def)

text \<open>
  Claim C7 as stated has both cases yield the same instance, the singleton. In a new
  registry whose only configured layout is the tabbed-master layout, an id that
  \<open>createLayoutFromId\<close> does not know, the layout resolved for a surface that is not
  ignored is not the singleton, which is what an ignored surface gets.
\<close>

theorem getCurrentLayout_unknown_not_singleton:
  "''TabbedMasterLayout'' \<notin> set known_layout_ids \<and>
   fst (getCurrentLayout
          \<lparr>layoutOrder = [''TabbedMasterLayout''], persisted_classID = (\<lambda>uid. None)\<rparr>
          \<lparr>surface_id = ''0'', ignore = False, workingArea = Rect 0 0 1920 1080,
           group_cache = Num 0, screen = Some 0, activity = ''a'', desktop = 1,
           surface_has_proxy = False, surface_has_log = False\<rparr>
          new_LayoutStore) \<noteq> Layout FloatingLayout_instance \<and>
   fst (getCurrentLayout
          \<lparr>layoutOrder = [''TabbedMasterLayout''], persisted_classID = (\<lambda>uid. None)\<rparr>
          \<lparr>surface_id = ''0'', ignore = False, workingArea = Rect 0 0 1920 1080,
           group_cache = Num 0, screen = Some 0, activity = ''a'', desktop = 1,
           surface_has_proxy = False, surface_has_log = False\<rparr>
          new_LayoutStore) \<noteq>
   fst (getCurrentLayout
          \<lparr>layoutOrder = [''TabbedMasterLayout''], persisted_classID = (\<lambda>uid. None)\<rparr>
          \<lparr>surface_id = ''0'', ignore = True, workingArea = Rect 0 0 1920 1080,
           group_cache = Num 0, screen = Some 0, activity = ''a'', desktop = 1,
           surface_has_proxy = False, surface_has_log = False\<rparr>
          new_LayoutStore)"
  by (simp add: getCurrentLayout_def getEntry_def new_LayoutStore_def new_entry_example
      string_of_screen_0 currentLayout_def loadLayout_def key_of_def
      FloatingLayout_instance_def known_layout_ids_def layout_id_defs Let_def)

theorem getCurrentLayout_floating_witness:
  "wf_store new_LayoutStore \<and>
   ''TabbedMasterLayout'' \<notin> set known_layout_ids \<and>
   ''TabbedMasterLayout'' \<notin> set object_prototype_names \<and>
   (\<exists>r. fst (getCurrentLayout
          \<lparr>layoutOrder = [''TabbedMasterLayout''], persisted_classID = (\<lambda>uid. None)\<rparr>
          \<lparr>surface_id = ''0'', ignore = False, workingArea = Rect 0 0 1920 1080,
           group_cache = Num 0, screen = Some 0, activity = ''a'', desktop = 1,
           surface_has_proxy = False, surface_has_log = False\<rparr>
          new_LayoutStore) = Layout r \<and> r \<noteq> FloatingLayout_instance) \<and>
   getCurrentLayout
          \<lparr>layoutOrder = [''TabbedMasterLayout''], persisted_classID = (\<lambda>uid. None)\<rparr>
          \<lparr>surface_id = ''0'', ignore = True, workingArea = Rect 0 0 1920 1080,
           group_cache = Num 0, screen = Some 0, activity = ''a'', desktop = 1,
           surface_has_proxy = False, surface_has_log = False\<rparr>
          new_LayoutStore = (Layout FloatingLayout_instance, new_LayoutStore) \<and>
   ''toString'' \<in> set object_prototype_names \<and>
   fst (getCurrentLayout
          \<lparr>layoutOrder = [''toString''], persisted_classID = (\<lambda>uid. None)\<rparr>
          \<lparr>surface_id = ''0'', ignore = False, workingArea = Rect 0 0 1920 1080,
           group_cache = Num 0, screen = Some 0, activity = ''a'', desktop = 1,
           surface_has_proxy = False, surface_has_log = False\<rparr>
          new_LayoutStore) = Inherited ''toString''"
proof -
  let ?shown = "\<lparr>surface_id = ''0'', ignore = False, workingArea = Rect 0 0 1920 1080,
           group_cache = Num 0, screen = Some 0, activity = ''a'', desktop = 1,
           surface_has_proxy = False, surface_has_log = False\<rparr>"
  let ?ignored = "\<lparr>surface_id = ''0'', ignore = True, workingArea = Rect 0 0 1920 1080,
           group_cache = Num 0, screen = Some 0, activity = ''a'', desktop = 1,
           surface_has_proxy = False, surface_has_log = False\<rparr>"
  let ?env = "\<lparr>layoutOrder = [''TabbedMasterLayout''], persisted_classID = (\<lambda>uid. None)\<rparr>"
  let ?env2 = "\<lparr>layoutOrder = [''toString''], persisted_classID = (\<lambda>uid. None)\<rparr>"
  have wf: "wf_store new_LayoutStore"
    by (simp add: wf_store_def new_LayoutStore_def initial_objects_def FloatingLayout_instance_def)
  have names: "''TabbedMasterLayout'' \<notin> set known_layout_ids"
    "''TabbedMasterLayout'' \<notin> set object_prototype_names"
    "''toString'' \<in> set object_prototype_names"
    by (simp_all add: known_layout_ids_def layout_id_defs object_prototype_names_def)
  have cur: "currentID (fst (getEntry ?env (string_of_screen (screen ?shown)) new_LayoutStore))
      = Some ''TabbedMasterLayout''"
    by (simp add: getEntry_def new_LayoutStore_def new_entry_example string_of_screen_0)
  have cur2: "currentID (fst (getEntry ?env2 (string_of_screen (screen ?shown)) new_LayoutStore))
      = Some ''toString''"
    by (simp add: getEntry_def new_LayoutStore_def case_prod_beta new_LayoutStoreEntry_snd
        js_nth_def)
  have unknown: "\<forall>k \<in> set known_layout_ids. Some ''TabbedMasterLayout'' \<noteq> Some k"
    using names(1) by auto
  show ?thesis
    using wf names unknown
      getCurrentLayout_floating [OF wf, of ?shown ?env]
      getCurrentLayout_floating [OF wf, of ?ignored ?env]
      getCurrentLayout_floating [OF wf, of ?shown ?env2]
    unfolding Let_def cur cur2
    by (simp add: key_of_def) blast
qed

section \<open>Properties of the group of a surface\<close>




text \<open>
  As written, the constructor leaves a surface without \<open>proxy\<close> and \<open>log\<close>; the first
  read of the group of such a surface throws.
\<close>

lemma group_get_as_constructed:
  "group_get (new_DriverSurfaceImpl env scr act desk, st) = Inl TypeError"
  by (simp add: group_get_def new_DriverSurfaceImpl_def)








section \<open>Properties of the re-entrancy guard\<close>

lemma run_entered:
  "entered d \<Longrightarrow>
     run h d = (\<not> throws h, d\<lparr>executed := executed d @ map (\<lambda>n. (n, True)) (own_acts h)\<rparr>)"
proof (induction h arbitrary: d)
  case Nil
  then show ?case by simp
next
  case (Cons s rest)
  show ?case
  proof (cases s)
    case (Act n)
    with Cons.prems Cons.IH [of "d\<lparr>executed := executed d @ [(n, entered d)]\<rparr>"]
    show ?thesis by simp
  next
    case (Signal handler)
    with Cons.prems Cons.IH [of d] show ?thesis by simp
  next
    case Throw
    then show ?thesis by simp
  qed
qed

lemma own_acts_drop_signal:
  "own_acts (pre @ Signal nested # post) = own_acts (pre @ post) \<and>
   throws (pre @ Signal nested # post) = throws (pre @ post)"
proof (induction pre)
  case Nil
  show ?case by simp
next
  case (Cons s pre)
  then show ?case by (cases s) simp_all
qed

text \<open>
  Claim C3. A notification that arrives while the guard flag is set is dropped: \<open>enter\<close>
  returns the driver as it found it, nothing executed and nothing kept for later. A
  handler entered with the flag clear runs with the flag set, so every operation it
  executes sees the flag set and the handlers of the notifications it triggers are never
  run: the driver ends as if those notifications had not been there, with only the
  handler's own operations executed. After the handler returns, or throws, the flag is
  clear.
\<close>

theorem enter_guard:
  "(entered d \<longrightarrow> enter h d = d) \<and>
   (\<not> entered d \<longrightarrow>
      entered (enter h d) = False \<and>
      executed (enter h d) = executed d @ map (\<lambda>n. (n, True)) (own_acts h) \<and>
      logged (enter h d) = (if throws h then logged d + 1 else logged d) \<and>
      enter (pre @ Signal nested # post) d = enter (pre @ post) d)"
  using run_entered [of "d\<lparr>entered := True\<rparr>" h]
    run_entered [of "d\<lparr>entered := True\<rparr>" "pre @ Signal nested # post"]
    run_entered [of "d\<lparr>entered := True\<rparr>" "pre @ post"]
    own_acts_drop_signal [of pre nested post]
  by simp

theorem enter_guard_witness:
  "\<not> entered \<lparr>entered = False, executed = [], logged = 0\<rparr> \<and>
   enter [Act 1, Signal [Act 2, Throw], Act 3] \<lparr>entered = False, executed = [], logged = 0\<rparr> =
     \<lparr>entered = False, executed = [(1, True), (3, True)], logged = 0\<rparr> \<and>
   entered \<lparr>entered = True, executed = [], logged = 0\<rparr> \<and>
   enter [Act 2, Throw] \<lparr>entered = True, executed = [], logged = 0\<rparr> =
     \<lparr>entered = True, executed = [], logged = 0\<rparr>"
  using enter_guard [of "\<lparr>entered = False, executed = [], logged = 0\<rparr>"
      "[Act 1, Signal [Act 2, Throw], Act 3]" "[Act 1]" "[Act 2, Throw]" "[Act 3]"]
    enter_guard [of "\<lparr>entered = True, executed = [], logged = 0\<rparr>" "[Act 2, Throw]"]
  by simp

section \<open>Properties of the tabbed-master layout\<close>

lemma numMasterTiles_set [simp]:
  "numMasterTiles (set_numMasterTiles v l) = v"
  by (simp add: numMasterTiles_def set_numMasterTiles_def)

lemma numMasterTiles_increase:
  "numMasterTiles (fst (executeAction slide l IncreaseMasterAreaWindowCount)) =
     (if numMasterTiles l < 10 then numMasterTiles l + 1 else numMasterTiles l)"
  by (simp add: executeAction_def)

lemma numMasterTiles_decrease:
  "numMasterTiles (fst (executeAction slide l DecreaseMasterAreaWindowCount)) =
     (if numMasterTiles l > 0 then numMasterTiles l - 1 else numMasterTiles l)"
  by (simp add: executeAction_def)

lemma numMasterTiles_other:
  "action \<noteq> IncreaseMasterAreaWindowCount \<Longrightarrow> action \<noteq> DecreaseMasterAreaWindowCount \<Longrightarrow>
   numMasterTiles (fst (executeAction slide l action)) = numMasterTiles l"
  by (cases action)
    (simp_all add: executeAction_def numMasterTiles_def set_masterRatio_def rotate_def Let_def)

lemma whole_below_bound:
  fixes n :: rat
  assumes "n \<in> \<int>" and "n < 10"
  shows "n + 1 \<le> 10"
proof -
  from assms(1) obtain k :: int where k: "n = of_int k"
    by (rule Ints_cases)
  with assms(2) have "k < 10" by simp
  then have "k + 1 \<le> 10" by simp
  then have "(of_int (k + 1) :: rat) \<le> of_int 10"
    by (simp only: of_int_le_iff)
  with k show ?thesis by simp
qed

lemma executeAction_keeps_bound:
  assumes "numMasterTiles l \<in> \<int>" and "numMasterTiles l \<le> 10"
  shows "numMasterTiles (fst (executeAction slide l action)) \<in> \<int> \<and>
         numMasterTiles (fst (executeAction slide l action)) \<le> 10"
proof (cases "action = IncreaseMasterAreaWindowCount")
  case True
  with assms whole_below_bound [of "numMasterTiles l"] show ?thesis
    by (simp add: numMasterTiles_increase)
next
  case False
  show ?thesis
  proof (cases "action = DecreaseMasterAreaWindowCount")
    case True
    with assms show ?thesis
      by (simp add: numMasterTiles_decrease)
  next
    case d: False
    with False assms show ?thesis
      by (simp add: numMasterTiles_other)
  qed
qed

lemma run_actions_keeps_bound:
  "numMasterTiles l \<in> \<int> \<Longrightarrow> numMasterTiles l \<le> 10 \<Longrightarrow>
   numMasterTiles (run_actions slide l actions) \<in> \<int> \<and>
   numMasterTiles (run_actions slide l actions) \<le> 10"
proof (induction actions arbitrary: l)
  case Nil
  then show ?case by simp
next
  case (Cons a actions)
  from executeAction_keeps_bound [OF Cons.prems, of slide a]
  show ?case by (simp add: Cons.IH)
qed

lemma arranges_recognised:
  "(\<forall>k. action \<noteq> OtherAction k) \<Longrightarrow> arranges (snd (executeAction slide l action)) = 1"
  by (cases action) (simp_all add: executeAction_def arranges_def Let_def)

text \<open>
  Claim C9. On the tabbed-master layout the action that increases the master area window
  count takes \<open>numMasterTiles\<close> from 1 to 2. The count never exceeds the bound 10: from
  every count the layout's own actions produce, a whole number of at most 10, no sequence
  of actions takes it above 10, and at 10 the action leaves the layout as it is. Every
  action the layout recognises triggers exactly one re-arrange of the current surface.
\<close>

theorem executeAction_increase_master_count:
  "(numMasterTiles l = 1 \<longrightarrow>
      numMasterTiles (fst (executeAction slide l IncreaseMasterAreaWindowCount)) = 2) \<and>
   (numMasterTiles l \<in> \<int> \<and> numMasterTiles l \<le> 10 \<longrightarrow>
      numMasterTiles (run_actions slide l actions) \<in> \<int> \<and>
      numMasterTiles (run_actions slide l actions) \<le> 10) \<and>
   (numMasterTiles l = 10 \<longrightarrow>
      fst (executeAction slide l IncreaseMasterAreaWindowCount) = l) \<and>
   ((\<forall>k. action \<noteq> OtherAction k) \<longrightarrow>
      arranges (snd (executeAction slide l action)) = 1)"
  using numMasterTiles_increase [of slide l] arranges_recognised [of action slide l]
    run_actions_keeps_bound [of l slide actions]
  by (auto simp: executeAction_def)

theorem executeAction_increase_master_count_witness:
  "numMasterTiles
        \<lparr>parts = \<lparr>angle = 0, inner = \<lparr>primarySize = 1, ratio = 1 / 2, gap = 0,
                   primary = new_StairLayoutPart,
                   secondary = \<lparr>angle = 0, inner = \<lparr>stack_gap = 0\<rparr>\<rparr>\<rparr>\<rparr>,
         layout_state = \<lparr>rotation = 0, partRotation = 0, state_numMasterTiles = 1\<rparr>,
         layout_uid = ''0''\<rparr> = 1 \<and>
   (1::rat) \<in> \<int> \<and> (1::rat) \<le> 10 \<and>
   numMasterTiles
     (fst (executeAction (\<lambda>v s. v + s)
        \<lparr>parts = \<lparr>angle = 0, inner = \<lparr>primarySize = 1, ratio = 1 / 2, gap = 0,
                   primary = new_StairLayoutPart,
                   secondary = \<lparr>angle = 0, inner = \<lparr>stack_gap = 0\<rparr>\<rparr>\<rparr>\<rparr>,
         layout_state = \<lparr>rotation = 0, partRotation = 0, state_numMasterTiles = 1\<rparr>,
         layout_uid = ''0''\<rparr>
        IncreaseMasterAreaWindowCount)) = 2 \<and>
   numMasterTiles
     (run_actions (\<lambda>v s. v + s)
        \<lparr>parts = \<lparr>angle = 0, inner = \<lparr>primarySize = 1, ratio = 1 / 2, gap = 0,
                   primary = new_StairLayoutPart,
                   secondary = \<lparr>angle = 0, inner = \<lparr>stack_gap = 0\<rparr>\<rparr>\<rparr>\<rparr>,
         layout_state = \<lparr>rotation = 0, partRotation = 0, state_numMasterTiles = 1\<rparr>,
         layout_uid = ''0''\<rparr>
        (replicate 12 IncreaseMasterAreaWindowCount)) \<le> 10 \<and>
   (\<forall>k. Rotate \<noteq> OtherAction k) \<and>
   arranges (snd (executeAction (\<lambda>v s. v + s)
        \<lparr>parts = \<lparr>angle = 0, inner = \<lparr>primarySize = 1, ratio = 1 / 2, gap = 0,
                   primary = new_StairLayoutPart,
                   secondary = \<lparr>angle = 0, inner = \<lparr>stack_gap = 0\<rparr>\<rparr>\<rparr>\<rparr>,
         layout_state = \<lparr>rotation = 0, partRotation = 0, state_numMasterTiles = 1\<rparr>,
         layout_uid = ''0''\<rparr> Rotate)) = 1"
  using executeAction_increase_master_count [of
        "\<lparr>parts = \<lparr>angle = 0, inner = \<lparr>primarySize = 1, ratio = 1 / 2, gap = 0,
                   primary = new_StairLayoutPart,
                   secondary = \<lparr>angle = 0, inner = \<lparr>stack_gap = 0\<rparr>\<rparr>\<rparr>\<rparr>,
         layout_state = \<lparr>rotation = 0, partRotation = 0, state_numMasterTiles = 1\<rparr>,
         layout_uid = ''0''\<rparr>" "\<lambda>v s. v + s" "replicate 12 IncreaseMasterAreaWindowCount" Rotate]
  by (simp add: numMasterTiles_def)

section \<open>Properties of \<open>commit\<close>\<close>

text \<open>
  As written: the constructor throws for every window that is not to be ignored, and
  leaves the others without \<open>log\<close> and \<open>proxy\<close>; \<open>commit\<close> on a window that lacks
  \<open>log\<close>, or \<open>proxy\<close>, or whose proxy offers no \<open>workspace()\<close>, throws and leaves the
  frame geometry as it is.
\<close>

lemma new_DriverWindowImpl_as_written:
  "(\<not> shouldIgnore \<longrightarrow> (\<exists>s. new_DriverWindowImpl env shouldIgnore c ws = Inl (TypeError, s))) \<and>
   (shouldIgnore \<longrightarrow>
      (\<exists>w. new_DriverWindowImpl env shouldIgnore c ws = Inr (w, ws) \<and>
           \<not> window_has_log w \<and> \<not> window_has_proxy w))"
  by (simp add: new_DriverWindowImpl_def set_hidden_def Let_def)

lemma commit_without_log:
  "\<not> window_has_log w \<Longrightarrow> commit env geom nb ka (w, ws) = Inl (TypeError, (w, ws))"
  by (simp add: commit_def window_surface_def window_screen_def set_hidden_def Let_def
      split: option.splits)

lemma commit_without_workspace:
  "window_has_log w \<Longrightarrow> \<not> (window_has_proxy w \<and> proxy_workspace env) \<Longrightarrow>
   commit env geom nb ka (w, ws) = Inl (TypeError, (w\<lparr>is_hidden := False\<rparr>, ws))"
  by (simp add: commit_def window_surface_def window_screen_def set_hidden_def Let_def
      split: option.splits)



















end
